theory Spec2Isabelle
  imports Main
begin

section \<open>Values shared by the whole program\<close>

text \<open>
  The program is a terminal front-end for the external \<open>jq\<close> engine. Everything
  outside \<open>main.go\<close> (the engine process, the operating system's files and standard
  input, the widget library) is a parameter of the model; every function of
  \<open>main.go\<close> the properties below are about is a definition that follows its text.
\<close>

type_synonym path = string

text \<open>
  A Go \<open>error\<close> value. \<open>*exec.ExitError\<close> is the one dynamic type the program
  distinguishes (by type assertion); it carries the exit status and the \<open>Stderr\<close>
  field. Every other error is its message.
\<close>

datatype go_error = ExitError int string | Error string

record Options =
  compact :: bool
  nullInput :: bool
  slurp :: bool
  rawOutput :: bool
  rawInput :: bool
  monochrome :: bool
  sortKeys :: bool
  historyFile :: path

text \<open>The zero value of \<open>Options\<close>, as \<open>Options{}\<close> builds it.\<close>

definition Options0 :: Options where
  "Options0 = \<lparr>compact = False, nullInput = False, slurp = False, rawOutput = False,
     rawInput = False, monochrome = False, sortKeys = False, historyFile = []\<rparr>"

fun contains :: "string list \<Rightarrow> string \<Rightarrow> bool" where
  "contains [] elem = False"
| "contains (v # arr) elem = (if elem = v then True else contains arr elem)"

definition ToSlice :: "Options \<Rightarrow> string list" where
  "ToSlice o1 =
     (if compact o1 then [''-c''] else []) @
     (if nullInput o1 then [''-n''] else []) @
     (if slurp o1 then [''-s''] else []) @
     (if rawOutput o1 then [''-r''] else []) @
     (if rawInput o1 then [''-R''] else []) @
     (if \<not> monochrome o1 then [''-C''] else []) @
     (if sortKeys o1 then [''-S''] else [])"

section \<open>The operating system: files and standard input\<close>

text \<open>
  A file system maps a path to the bytes stored there, when a file exists. A path can
  carry a fault, which makes one kind of operation on it fail (permissions, a full disk):
  the program's I/O calls return an error there.
\<close>

datatype io_fault = OpenFails | ReadFails | WriteFails | CloseFails

record filesys =
  content :: "path \<rightharpoonup> string"
  fault :: "path \<Rightarrow> io_fault option"

text \<open>\<open>ioutil.ReadFile\<close>: the whole content, or the error of opening or reading.\<close>

definition ReadFile :: "filesys \<Rightarrow> path \<Rightarrow> go_error + string" where
  "ReadFile fs p =
     (case content fs p of
        None \<Rightarrow> Inl (Error ''no such file or directory'')
      | Some c \<Rightarrow>
          if fault fs p = Some OpenFails then Inl (Error ''permission denied'')
          else if fault fs p = Some ReadFails then Inl (Error ''input/output error'')
          else Inr c)"

text \<open>
  Standard input: whether it is a character device (a terminal, nothing piped), and
  what reading it to the end gives.
\<close>

record stdin =
  charDevice :: bool
  stdinData :: "go_error + string"

definition stdinHasData :: "stdin \<Rightarrow> bool" where
  "stdinHasData si = (\<not> charDevice si)"

section \<open>Document\<close>

record Document =
  input :: string
  options :: Options

definition FromFile :: "filesys \<Rightarrow> Document \<Rightarrow> path \<Rightarrow> go_error + Document" where
  "FromFile fs d filename =
     (case ReadFile fs filename of
        Inl err \<Rightarrow> Inl err
      | Inr bytes \<Rightarrow> Inr (d\<lparr>input := bytes\<rparr>))"

definition FromStdin :: "stdin \<Rightarrow> Document \<Rightarrow> go_error + Document" where
  "FromStdin si d =
     (if \<not> stdinHasData si then Inl (Error ''no data on stdin'')
      else case stdinData si of
             Inl err \<Rightarrow> Inl err
           | Inr buf \<Rightarrow> Inr (d\<lparr>input := buf\<rparr>))"

text \<open>The loop of \<open>Read\<close> over the file arguments: it stops at the first error.\<close>

fun readFiles :: "filesys \<Rightarrow> Document \<Rightarrow> path list \<Rightarrow> go_error + Document" where
  "readFiles fs d [] = Inr d"
| "readFiles fs d (file # args) =
     (case FromFile fs d file of
        Inl err \<Rightarrow> Inl err
      | Inr d' \<Rightarrow> readFiles fs d' args)"

definition Read :: "filesys \<Rightarrow> stdin \<Rightarrow> Document \<Rightarrow> path list \<Rightarrow> go_error + Document" where
  "Read fs si d args =
     (if nullInput (options d) then Inr d
      else if length args > 0 then readFiles fs d args
      else FromStdin si d)"

text \<open>The document \<open>main\<close> hands to \<open>Read\<close>: \<open>Document{options: options}\<close>.\<close>

definition newDocument :: "Options \<Rightarrow> Document" where
  "newDocument opts = \<lparr>input = [], options = opts\<rparr>"

section \<open>The external engine\<close>

text \<open>
  One run of \<open>exec.Command("jq", args...)\<close> with the given bytes on its standard
  input. \<open>StdinPipe\<close> can fail before anything runs. \<open>CombinedOutput\<close> returns the
  bytes of standard output and standard error together with \<open>nil\<close>, with an
  \<open>*exec.ExitError\<close> (the process ran and its exit status is not 0), or with another
  error (the process could not be started, or its streams could not be copied).
\<close>

datatype wait_error = ExitStatus int | NotStarted string

datatype cmd_result = StdinPipeFails string | CombinedOutput string "wait_error option"

type_synonym engine = "string list \<Rightarrow> string \<Rightarrow> cmd_result"

definition Filter :: "engine \<Rightarrow> Document \<Rightarrow> string \<Rightarrow> go_error + string" where
  "Filter jq d filter1 =
     (let args = ToSlice (options d) @ [filter1] in
      case jq args (input d) of
        StdinPipeFails m \<Rightarrow> Inl (Error m)
      | CombinedOutput out None \<Rightarrow> Inr out
      | CombinedOutput out (Some (ExitStatus st)) \<Rightarrow> Inl (ExitError st out)
      | CombinedOutput out (Some (NotStarted m)) \<Rightarrow> Inl (Error m))"

section \<open>The history file\<close>

definition LF :: char where
  "LF = CHR 0x0A"

definition CR :: char where
  "CR = CHR 0x0D"

text \<open>
  \<open>appendToFile\<close> opens the file for appending, creating it when it is missing, and
  writes the line and a newline. It returns the file system as the call leaves it and
  the error, if any. A write that fails is taken to have written nothing.
\<close>

definition appendToFile :: "filesys \<Rightarrow> path \<Rightarrow> string \<Rightarrow> filesys \<times> go_error option" where
  "appendToFile fs filepath line =
     (if filepath = [] then (fs, Some (Error ''no filepath specified''))
      else if fault fs filepath = Some OpenFails then (fs, Some (Error ''open failed''))
      else
        let old = (case content fs filepath of None \<Rightarrow> [] | Some c \<Rightarrow> c) in
        if fault fs filepath = Some WriteFails
        then (fs\<lparr>content := (content fs)(filepath \<mapsto> old)\<rparr>, Some (Error ''write failed''))
        else
          let fs' = fs\<lparr>content := (content fs)(filepath \<mapsto> old @ line @ [LF])\<rparr> in
          if fault fs filepath = Some CloseFails then (fs', Some (Error ''close failed''))
          else (fs', None))"

text \<open>
  \<open>bufio.Scanner\<close> with its default split function \<open>ScanLines\<close>: the data is cut after
  every newline, the newline is dropped, and so is one carriage return before it; a last
  line with no newline is a line when it is not empty. A line of
  \<open>bufio.MaxScanTokenSize\<close> bytes or more does not fit the scanner's buffer: the scan
  stops with \<open>ErrTooLong\<close>.
\<close>

definition maxScanTokenSize :: nat where
  "maxScanTokenSize = 64 * 1024"

fun rawLines :: "string \<Rightarrow> string \<Rightarrow> string list" where
  "rawLines acc [] = (if acc = [] then [] else [rev acc])"
| "rawLines acc (c # cs) =
     (if c = LF then rev acc # rawLines [] cs else rawLines (c # acc) cs)"

definition dropCR :: "string \<Rightarrow> string" where
  "dropCR l = (if l \<noteq> [] \<and> last l = CR then butlast l else l)"

definition scanLines :: "string \<Rightarrow> go_error + string list" where
  "scanLines data =
     (let raw = rawLines [] data in
      if list_ex (\<lambda>l. maxScanTokenSize \<le> length l) raw
      then Inl (Error ''bufio.Scanner: token too long'')
      else Inr (map dropCR raw))"

definition readFromFile :: "filesys \<Rightarrow> path \<Rightarrow> go_error + string list" where
  "readFromFile fs filepath =
     (case content fs filepath of
        None \<Rightarrow> Inl (Error ''no such file or directory'')
      | Some c \<Rightarrow>
          if fault fs filepath = Some OpenFails then Inl (Error ''permission denied'')
          else if fault fs filepath = Some ReadFails then Inl (Error ''input/output error'')
          else scanLines c)"

text \<open>
  \<open>createApp\<close> reads the history once and ignores the error: a history that cannot be
  read is the \<open>nil\<close> slice.
\<close>

definition loadHistory :: "filesys \<Rightarrow> path \<Rightarrow> string list" where
  "loadHistory fs filepath =
     (case readFromFile fs filepath of Inl err \<Rightarrow> [] | Inr ls \<Rightarrow> ls)"

text \<open>
  What the history file asks of a filter to hold it in one line and give it back: no
  newline in it, no carriage return at its end, and a length the scanner accepts.
\<close>

definition singleLine :: "string \<Rightarrow> bool" where
  "singleLine e =
     (LF \<notin> set e \<and> \<not> (e \<noteq> [] \<and> last e = CR) \<and> length e < maxScanTokenSize)"

text \<open>Bytes in the format of the history file: whole lines that the scanner accepts.\<close>

definition wellFormed :: "string \<Rightarrow> bool" where
  "wellFormed c =
     ((c = [] \<or> last c = LF) \<and>
      \<not> list_ex (\<lambda>l. maxScanTokenSize \<le> length l) (rawLines [] c))"

text \<open>
  The history is in use and works: a path is configured, no operation on it fails, and
  the file is missing or in its format.
\<close>

definition historyUsable :: "filesys \<Rightarrow> path \<Rightarrow> bool" where
  "historyUsable fs filepath =
     (filepath \<noteq> [] \<and> fault fs filepath = None \<and>
      (case content fs filepath of None \<Rightarrow> True | Some c \<Rightarrow> wellFormed c))"

definition bytesOf :: "filesys \<Rightarrow> path \<Rightarrow> string" where
  "bytesOf fs filepath = (case content fs filepath of None \<Rightarrow> [] | Some c \<Rightarrow> c)"

section \<open>The application\<close>

datatype color = ColorBlack | ColorSilver | ColorMaroon

datatype key = KeyEnter | KeyEscape | KeyTab | KeyBacktab

text \<open>
  \<open>tview.ANSIWriter\<close> belongs to the widget library: a writer that turns the escape
  sequences of the bytes written to it into the text view's colour tags and appends
  the result to the view. It keeps state from one write to the next. It is a parameter
  here: from its state and the bytes written, its next state and the text that
  reaches the view.
\<close>

type_synonym 'w ansi = "'w \<Rightarrow> string \<Rightarrow> 'w \<times> string"

text \<open>
  What the closures of \<open>createApp\<close> share: the text of the three views, the two
  writers, the colour and the text of the filter field, the list the field shows as
  completions, the history read at startup, the suggestion cache \<open>filterMap\<close>, and
  whether the application still runs.
\<close>

record 'w app =
  inputView :: string
  outputView :: string
  outputOffset :: nat
  errorView :: string
  outputWriter :: 'w
  errorWriter :: 'w
  fieldTextColor :: color
  filterText :: string
  autocompleteList :: "string list"
  history :: "string list"
  filterMap :: "string \<rightharpoonup> string list"
  running :: bool

text \<open>The process: it runs on, or it has ended with an exit status.\<close>

datatype 'a proc = Exited int | Running 'a

text \<open>
  The function \<open>SetChangedFunc\<close> queues for every change of the filter text. It runs on
  the event loop, and the evaluation runs inside it.
\<close>

definition changedUpdate :: "'w ansi \<Rightarrow> engine \<Rightarrow> Document \<Rightarrow> string \<Rightarrow> 'w app \<Rightarrow> 'w app" where
  "changedUpdate ansi jq doc text s =
     (let s1 = s\<lparr>errorView := []\<rparr> in
      case Filter jq doc text of
        Inl err \<Rightarrow>
          (let s2 = s1\<lparr>fieldTextColor := ColorMaroon\<rparr> in
           case err of
             ExitError st se \<Rightarrow>
               (let (w, t) = ansi (errorWriter s2) se
                in s2\<lparr>errorWriter := w, errorView := errorView s2 @ t\<rparr>)
           | Error m \<Rightarrow> s2)
      | Inr out \<Rightarrow>
          (let s2 = s1\<lparr>fieldTextColor := ColorSilver, outputView := []\<rparr>;
               (w, t) = ansi (outputWriter s2) out
           in s2\<lparr>outputWriter := w, outputView := outputView s2 @ t, outputOffset := 0\<rparr>))"

text \<open>
  The callback hands each update to the event loop from a goroutine of its own
  (\<open>go app.QueueUpdateDraw(...)\<close>), so the updates reach the queue in any order. The
  event loop runs the queue front to back.
\<close>

fun eventLoop :: "'w ansi \<Rightarrow> engine \<Rightarrow> Document \<Rightarrow> string list \<Rightarrow> 'w app \<Rightarrow> 'w app" where
  "eventLoop ansi jq doc [] s = s"
| "eventLoop ansi jq doc (text # queue) s =
     eventLoop ansi jq doc queue (changedUpdate ansi jq doc text s)"

text \<open>One evaluation of the interactive loop, as a step of the process: it never exits.\<close>

definition changedStep :: "'w ansi \<Rightarrow> engine \<Rightarrow> Document \<Rightarrow> string \<Rightarrow> 'w app \<Rightarrow> 'w app proc" where
  "changedStep ansi jq doc text s = Running (changedUpdate ansi jq doc text s)"

text \<open>
  The goroutine \<open>createApp\<close> starts to show the document and the output of the initial
  filter. \<open>log.Fatalln\<close> ends the process with status 1. \<open>w0\<close> is the state of a new
  \<open>ANSIWriter\<close>.
\<close>

definition startup :: "'w ansi \<Rightarrow> 'w \<Rightarrow> engine \<Rightarrow> Document \<Rightarrow> string \<Rightarrow> 'w app \<Rightarrow> 'w app proc" where
  "startup ansi w0 jq doc filter1 s =
     (case Filter jq doc ''.'' of
        Inl err \<Rightarrow> Exited 1
      | Inr orig \<Rightarrow>
          (let (out, s1) =
                 (case Filter jq doc filter1 of
                    Inl err \<Rightarrow> ([], s\<lparr>fieldTextColor := ColorMaroon\<rparr>)
                  | Inr out \<Rightarrow> (out, s));
               s2 = s1\<lparr>inputView := inputView s1 @ snd (ansi w0 orig)\<rparr>;
               (w, t) = ansi (outputWriter s2) out
           in Running (s2\<lparr>outputWriter := w, outputView := outputView s2 @ t\<rparr>)))"

subsection \<open>Completion\<close>

text \<open>\<open>strings.LastIndexByte\<close>: the loop from the last byte down; -1 when there is none.\<close>

fun lastIndexFrom :: "nat \<Rightarrow> string \<Rightarrow> char \<Rightarrow> int" where
  "lastIndexFrom 0 s c = -1"
| "lastIndexFrom (Suc i) s c = (if s ! i = c then int i else lastIndexFrom i s c)"

definition LastIndexByte :: "string \<Rightarrow> char \<Rightarrow> int" where
  "LastIndexByte s c = lastIndexFrom (length s) s c"

text \<open>
  The function given to \<open>SetAutocompleteFunc\<close>. It returns the entries, and the prefix
  of the fetch goroutine it starts, if it starts one. The mutex makes the lookup one
  step.
\<close>

definition autocompleteFunc :: "'w app \<Rightarrow> string \<Rightarrow> string list \<times> string option" where
  "autocompleteFunc s text =
     (if filterText s = [] \<and> length (history s) > 0 then (history s, None)
      else
        let pos = LastIndexByte text (CHR ''.'') in
        if pos \<noteq> -1 then
          (let prefix = take (nat pos) text in
           case filterMap s prefix of
             Some entries \<Rightarrow> (entries, None)
           | None \<Rightarrow> ([], Some prefix))
        else ([], None))"

text \<open>
  \<open>InputField.Autocomplete\<close> of the widget library calls the function with the text of
  the field and keeps the entries as the list to show.
\<close>

definition Autocomplete :: "'w app \<Rightarrow> 'w app \<times> string option" where
  "Autocomplete s =
     (let (entries, spawned) = autocompleteFunc s (filterText s)
      in (s\<lparr>autocompleteList := entries\<rparr>, spawned))"

text \<open>The filter of the secondary evaluation.\<close>

definition fetchFilter :: "string \<Rightarrow> string" where
  "fetchFilter prefix =
     (let filt = (if prefix \<noteq> [] then prefix @ ''| keys'' else ''keys'')
      in ''['' @ filt @ ''] | unique | first'')"

text \<open>
  The fetch goroutine for a prefix. \<open>unmarshal\<close> is \<open>json.Unmarshal\<close> into a slice of
  strings, of the standard library: \<open>None\<close> is its error. The goroutine returns what
  it leaves of the application, and the prefix of the fetch that its call of
  \<open>Autocomplete\<close> starts, if any.
\<close>

definition fetch ::
  "engine \<Rightarrow> (string \<Rightarrow> string list option) \<Rightarrow> Document \<Rightarrow> string \<Rightarrow> 'w app \<Rightarrow>
     'w app \<times> string option" where
  "fetch jq unmarshal doc prefix s =
     (let d = \<lparr>input = input doc, options = Options0\<lparr>monochrome := True\<rparr>\<rparr> in
      case Filter jq d (fetchFilter prefix) of
        Inl err \<Rightarrow> (s, None)
      | Inr out \<Rightarrow>
          (case unmarshal out of
             None \<Rightarrow> (s, None)
           | Some keys \<Rightarrow>
               (let entries = map (\<lambda>k. prefix @ ''.'' @ k) keys
                in Autocomplete (s\<lparr>filterMap := (filterMap s)(prefix \<mapsto> entries)\<rparr>))))"

subsection \<open>Commit\<close>

text \<open>What the process has written, and the files.\<close>

record process =
  fsys :: filesys
  stdout :: string
  stderr :: string

text \<open>
  The function given to \<open>SetDoneFunc\<close>. \<open>plain\<close> is \<open>TextView.GetText(true)\<close> of the
  widget library, which strips the colour tags from the text of the view.
\<close>

definition DoneFunc ::
  "(string \<Rightarrow> string) \<Rightarrow> Document \<Rightarrow> key \<Rightarrow> 'w app \<Rightarrow> process \<Rightarrow> 'w app \<times> process" where
  "DoneFunc plain doc k s p =
     (case k of
        KeyEnter \<Rightarrow>
          (let s1 = s\<lparr>running := False\<rparr>;
               expression = filterText s1;
               output = plain (outputView s1);
               p1 = p\<lparr>stderr := stderr p @ expression @ [LF]\<rparr>;
               p2 = p1\<lparr>stdout := stdout p1 @ output\<rparr>
           in if expression \<noteq> [] \<and> \<not> contains (history s1) expression
              then (s1, p2\<lparr>fsys :=
                      fst (appendToFile (fsys p2) (historyFile (options doc)) expression)\<rparr>)
              else (s1, p2))
      | _ \<Rightarrow> (s, p))"

text \<open>
  One session of the program on a history file: \<open>createApp\<close> loads the history from
  the file, the user edits the filter to \<open>expression\<close>, and Enter commits it, which
  ends the session.
\<close>

definition session ::
  "(string \<Rightarrow> string) \<Rightarrow> Document \<Rightarrow> string \<Rightarrow> 'w app \<Rightarrow> process \<Rightarrow> process" where
  "session plain doc expression s p =
     snd (DoneFunc plain doc KeyEnter
            (s\<lparr>history := loadHistory (fsys p) (historyFile (options doc)),
               filterText := expression\<rparr>) p)"

text \<open>The history the next session would load.\<close>

definition stored :: "Document \<Rightarrow> process \<Rightarrow> string list" where
  "stored doc p = loadHistory (fsys p) (historyFile (options doc))"

text \<open>The state \<open>createApp\<close> builds before any event.\<close>

definition createApp :: "'w \<Rightarrow> filesys \<Rightarrow> Document \<Rightarrow> string \<Rightarrow> 'w app" where
  "createApp w fs doc filter1 =
     \<lparr>inputView = [], outputView = [], outputOffset = 0, errorView = [],
      outputWriter = w, errorWriter = w, fieldTextColor = ColorSilver,
      filterText = filter1, autocompleteList = [],
      history = loadHistory fs (historyFile (options doc)),
      filterMap = Map.empty, running = True\<rparr>"

section \<open>Concrete surroundings for concrete runs\<close>

text \<open>
  A stand-in for the engine on the document \<open>{"a":1}\<close> with compact, monochrome
  output: it answers the filters \<open>.\<close> and \<open>.a\<close> and the key query of the root,
  refuses the key query of the number at \<open>.a\<close> with exit status 5, and rejects every
  other filter with exit status 3.
\<close>

definition stubJq :: engine where
  "stubJq args stdin1 =
     (if last args = ''.'' then CombinedOutput (''{\"a\":1}'' @ [LF]) None
      else if last args = ''.a'' then CombinedOutput (''1'' @ [LF]) None
      else if last args = ''[keys] | unique | first''
        then CombinedOutput (''[\"a\"]'' @ [LF]) None
      else if last args = ''[.a| keys] | unique | first''
        then CombinedOutput (''jq: error (at <stdin>:1): number (1) has no keys'' @ [LF])
               (Some (ExitStatus 5))
      else CombinedOutput (''jq: error: syntax error'' @ [LF]) (Some (ExitStatus 3)))"

text \<open>The engine of a machine with no \<open>jq\<close> on its path.\<close>

definition noJq :: engine where
  "noJq args stdin1 = CombinedOutput [] (Some (NotStarted ''executable file not found''))"

text \<open>A writer that passes the bytes on as they are.\<close>

definition plainWriter :: "unit ansi" where
  "plainWriter w text = (w, text)"

definition doc1 :: Document where
  "doc1 = \<lparr>input = ''{\"a\":1}'',
           options = Options0\<lparr>compact := True, monochrome := True,
                              historyFile := ''history''\<rparr>\<rparr>"

definition noFiles :: filesys where
  "noFiles = \<lparr>content = Map.empty, fault = (\<lambda>p. None)\<rparr>"

definition app1 :: "unit app" where
  "app1 = createApp () noFiles doc1 ''.''"

text \<open>
  A stand-in for \<open>json.Unmarshal\<close> into a slice of strings that knows the one text the
  engines here give.
\<close>

definition stubUnmarshal :: "string \<Rightarrow> string list option" where
  "stubUnmarshal out = (if out = ''[\"a\"]'' @ [LF] then Some [''a''] else None)"

text \<open>
  A stand-in for the engine on the document \<open>[{"b":1},{"a":2}]\<close>, for the key query of
  its elements. There \<open>.[]\<close> gives the two objects, \<open>keys\<close> gives \<open>["b"]\<close> and \<open>["a"]\<close>,
  \<open>unique\<close> sorts the list of the two key lists to \<open>[["a"],["b"]]\<close>, and \<open>first\<close> keeps
  \<open>["a"]\<close>.
\<close>

definition doc2 :: Document where
  "doc2 = \<lparr>input = ''[{\"b\":1},{\"a\":2}]'',
           options = Options0\<lparr>compact := True, monochrome := True,
                              historyFile := ''history''\<rparr>\<rparr>"

definition stubJqList :: engine where
  "stubJqList args stdin1 =
     (if last args = ''[.[]| keys] | unique | first''
        then CombinedOutput (''[\"a\"]'' @ [LF]) None
      else CombinedOutput (''jq: error: syntax error'' @ [LF]) (Some (ExitStatus 3)))"

text \<open>A document with the history switched off, as \<open>-H ''\<close> configures it.\<close>

definition docNoHistory :: Document where
  "docNoHistory = doc1\<lparr>options := (options doc1)\<lparr>historyFile := []\<rparr>\<rparr>"

text \<open>A history file whose last line has no newline.\<close>

definition procUnterminated :: process where
  "procUnterminated =
     \<lparr>fsys = \<lparr>content = [''history'' \<mapsto> ''.b''], fault = (\<lambda>p. None)\<rparr>,
      stdout = [], stderr = []\<rparr>"

text \<open>A history file that cannot be opened.\<close>

definition procDenied :: process where
  "procDenied =
     \<lparr>fsys = \<lparr>content = Map.empty, fault = (\<lambda>p. Some OpenFails)\<rparr>,
      stdout = [], stderr = []\<rparr>"

definition proc0 :: process where
  "proc0 = \<lparr>fsys = noFiles, stdout = [], stderr = []\<rparr>"

section \<open>Reading the document\<close>

lemma readFiles_last:
  "args \<noteq> [] \<Longrightarrow> readFiles fs d args = Inr d' \<Longrightarrow>
     ReadFile fs (last args) = Inr (input d') \<and> options d' = options d"
proof (induction args arbitrary: d)
  case Nil
  then show ?case by simp
next
  case (Cons fname args)
  from Cons.prems(2) obtain d1 where
    d1: "FromFile fs d fname = Inr d1" and rest: "readFiles fs d1 args = Inr d'"
    by (auto split: sum.splits)
  from d1 obtain bytes where
    bytes: "ReadFile fs fname = Inr bytes" and d1_eq: "d1 = d\<lparr>input := bytes\<rparr>"
    by (auto simp: FromFile_def split: sum.splits)
  show ?case
  proof (cases "args = []")
    case True
    with rest bytes d1_eq show ?thesis by auto
  next
    case False
    from Cons.IH [OF False rest] d1_eq False show ?thesis by simp
  qed
qed

lemma readFiles_readable:
  "\<forall>f \<in> set args. \<exists>c. ReadFile fs f = Inr c \<Longrightarrow> \<exists>d'. readFiles fs d args = Inr d'"
proof (induction args arbitrary: d)
  case Nil
  then show ?case by simp
next
  case (Cons fname args)
  then obtain c where c: "ReadFile fs fname = Inr c" by auto
  from Cons.IH [of "d\<lparr>input := c\<rparr>"] Cons.prems c show ?case
    by (simp add: FromFile_def)
qed

text \<open>
  C9. With null-input mode configured, \<open>Read\<close> succeeds and returns the document as it
  was given, whatever the file arguments, the files and standard input are: it consults
  none of them. For the document \<open>main\<close> builds from the options, the input text
  stays empty.
\<close>

theorem Read_nullInput:
  "nullInput (options d) \<Longrightarrow>
     Read fs si d args = Inr d \<and>
     (\<exists>d'. Read fs si (newDocument (options d)) args = Inr d' \<and> input d' = [])"
  by (simp add: Read_def newDocument_def)

theorem Read_nullInput_witness:
  "nullInput (options (newDocument (Options0\<lparr>nullInput := True\<rparr>))) \<and>
   Read \<lparr>content = Map.empty, fault = (\<lambda>p. None)\<rparr>
        \<lparr>charDevice = True, stdinData = Inr []\<rparr>
        (newDocument (Options0\<lparr>nullInput := True\<rparr>)) [''missing.json'']
     = Inr (newDocument (Options0\<lparr>nullInput := True\<rparr>)) \<and>
   input (newDocument (Options0\<lparr>nullInput := True\<rparr>)) = []"
proof -
  have h: "nullInput (options (newDocument (Options0\<lparr>nullInput := True\<rparr>)))"
    by (simp add: newDocument_def Options0_def)
  from Read_nullInput [OF h, of "\<lparr>content = Map.empty, fault = (\<lambda>p. None)\<rparr>"
      "\<lparr>charDevice = True, stdinData = Inr []\<rparr>" "[''missing.json'']"]
  show ?thesis using h by (simp add: newDocument_def)
qed

text \<open>
  C10. With null-input mode off and more than one file argument, a successful \<open>Read\<close>
  leaves as input text the content of the last file alone: every file read overwrites
  what the one before stored. \<open>Read\<close> succeeds when every file can be read.
\<close>

theorem Read_last_file:
  "\<not> nullInput (options d) \<Longrightarrow> 1 < length args \<Longrightarrow>
     (Read fs si d args = Inr d' \<longrightarrow>
        ReadFile fs (last args) = Inr (input d') \<and> options d' = options d) \<and>
     ((\<forall>f \<in> set args. \<exists>c. ReadFile fs f = Inr c) \<longrightarrow>
        (\<exists>d''. Read fs si d args = Inr d''))"
proof -
  assume off: "\<not> nullInput (options d)" and len: "1 < length args"
  from len have ne: "args \<noteq> []" by auto
  from off ne have eq: "Read fs si d args = readFiles fs d args"
    by (simp add: Read_def)
  show ?thesis
    unfolding eq using readFiles_last [OF ne] readFiles_readable by blast
qed

theorem Read_last_file_witness:
  "Read \<lparr>content = [''a.json'' \<mapsto> ''{\"a\":1}'', ''b.json'' \<mapsto> ''{\"b\":2}''],
          fault = (\<lambda>p. None)\<rparr>
        \<lparr>charDevice = True, stdinData = Inr []\<rparr>
        (newDocument Options0) [''a.json'', ''b.json'']
     = Inr ((newDocument Options0)\<lparr>input := ''{\"b\":2}''\<rparr>)"
proof -
  let ?fs = "\<lparr>content = [''a.json'' \<mapsto> ''{\"a\":1}'', ''b.json'' \<mapsto> ''{\"b\":2}''],
               fault = (\<lambda>p. None)\<rparr>"
  let ?si = "\<lparr>charDevice = True, stdinData = Inr []\<rparr>"
  have off: "\<not> nullInput (options (newDocument Options0))"
    by (simp add: newDocument_def Options0_def)
  have len: "1 < length [''a.json'', ''b.json'']" by simp
  have run: "Read ?fs ?si (newDocument Options0) [''a.json'', ''b.json'']
      = Inr ((newDocument Options0)\<lparr>input := ''{\"b\":2}''\<rparr>)"
    by (simp add: Read_def newDocument_def Options0_def FromFile_def ReadFile_def)
  from Read_last_file [OF off len, of ?fs ?si] run show ?thesis by simp
qed

section \<open>Evaluation\<close>

text \<open>
  C5. When the engine runs and exits with a status other than 0, \<open>Filter\<close> returns
  the exit error whose \<open>Stderr\<close> field holds exactly the bytes of the combined output
  stream; when the engine exits with status 0, \<open>Filter\<close> returns exactly those bytes as
  the result.
\<close>

theorem Filter_passes_stream:
  "(jq (ToSlice (options d) @ [flt]) (input d) = CombinedOutput out (Some (ExitStatus st))
      \<longrightarrow> Filter jq d flt = Inl (ExitError st out)) \<and>
   (jq (ToSlice (options d) @ [flt]) (input d) = CombinedOutput out None
      \<longrightarrow> Filter jq d flt = Inr out)"
  by (simp add: Filter_def)

theorem Filter_passes_stream_witness:
  "Filter stubJq doc1 ''.a'' = Inr (''1'' @ [LF]) \<and>
   Filter stubJq doc1 ''.['' = Inl (ExitError 3 (''jq: error: syntax error'' @ [LF]))"
proof -
  have ok: "stubJq (ToSlice (options doc1) @ [''.a'']) (input doc1)
      = CombinedOutput (''1'' @ [LF]) None"
    by (simp add: stubJq_def)
  have bad: "stubJq (ToSlice (options doc1) @ [''.['']) (input doc1)
      = CombinedOutput (''jq: error: syntax error'' @ [LF]) (Some (ExitStatus 3))"
    by (simp add: stubJq_def)
  from Filter_passes_stream [of stubJq doc1 "''.a''" "''1'' @ [LF]" 0] ok
  have "Filter stubJq doc1 ''.a'' = Inr (''1'' @ [LF])" by simp
  moreover from Filter_passes_stream
    [of stubJq doc1 "''.[''" "''jq: error: syntax error'' @ [LF]" 3] bad
  have "Filter stubJq doc1 ''.['' = Inl (ExitError 3 (''jq: error: syntax error'' @ [LF]))"
    by simp
  ultimately show ?thesis by simp
qed

section \<open>Live evaluation\<close>

lemma changedUpdate_failure:
  "Filter jq doc text = Inl err \<Longrightarrow>
     changedUpdate ansi jq doc text s =
       (case err of
          ExitError st se \<Rightarrow>
            s\<lparr>errorView := snd (ansi (errorWriter s) se),
              errorWriter := fst (ansi (errorWriter s) se),
              fieldTextColor := ColorMaroon\<rparr>
        | Error m \<Rightarrow> s\<lparr>errorView := [], fieldTextColor := ColorMaroon\<rparr>)"
  by (cases err) (simp_all add: changedUpdate_def split: prod.splits)

lemma changedUpdate_success:
  "Filter jq doc text = Inr out \<Longrightarrow>
     changedUpdate ansi jq doc text s =
       s\<lparr>errorView := [], fieldTextColor := ColorSilver,
         outputView := snd (ansi (outputWriter s) out),
         outputWriter := fst (ansi (outputWriter s) out),
         outputOffset := 0\<rparr>"
  by (simp add: changedUpdate_def split: prod.splits)

lemma eventLoop_snoc:
  "eventLoop ansi jq doc (queue @ [text]) s =
     changedUpdate ansi jq doc text (eventLoop ansi jq doc queue s)"
  by (induction queue arbitrary: s) simp_all

text \<open>
  C2. When the evaluation of the filter fails, the update leaves the text of the output
  view as it was before: the state after the update is the state before it with only
  the error view, its writer and the colour of the filter field set anew.
\<close>

theorem failure_keeps_output:
  "Filter jq doc text = Inl err \<Longrightarrow>
     outputView (changedUpdate ansi jq doc text s) = outputView s \<and>
     (\<exists>e w. changedUpdate ansi jq doc text s =
        s\<lparr>errorView := e, errorWriter := w, fieldTextColor := ColorMaroon\<rparr>)"
proof -
  assume failed: "Filter jq doc text = Inl err"
  show ?thesis
  proof (cases err)
    case (ExitError st se)
    with changedUpdate_failure [OF failed, of ansi s] show ?thesis by auto
  next
    case (Error m)
    with changedUpdate_failure [OF failed, of ansi s]
    have "changedUpdate ansi jq doc text s =
        s\<lparr>errorView := [], errorWriter := errorWriter s, fieldTextColor := ColorMaroon\<rparr>"
      by simp
    then show ?thesis
      by (intro conjI exI [of _ "[]"] exI [of _ "errorWriter s"]) simp_all
  qed
qed

theorem failure_keeps_output_witness:
  "Filter stubJq doc1 ''.['' = Inl (ExitError 3 (''jq: error: syntax error'' @ [LF])) \<and>
   outputView (changedUpdate plainWriter stubJq doc1 ''.[''
                 (changedUpdate plainWriter stubJq doc1 ''.a'' app1)) = ''1'' @ [LF] \<and>
   errorView (changedUpdate plainWriter stubJq doc1 ''.[''
                 (changedUpdate plainWriter stubJq doc1 ''.a'' app1))
     = ''jq: error: syntax error'' @ [LF]"
proof -
  let ?s = "changedUpdate plainWriter stubJq doc1 ''.a'' app1"
  have failed: "Filter stubJq doc1 ''.[''
      = Inl (ExitError 3 (''jq: error: syntax error'' @ [LF]))"
    by (simp add: Filter_def stubJq_def doc1_def Options0_def ToSlice_def)
  have ok: "Filter stubJq doc1 ''.a'' = Inr (''1'' @ [LF])"
    by (simp add: Filter_def stubJq_def doc1_def Options0_def ToSlice_def)
  have before: "outputView ?s = ''1'' @ [LF]"
    by (simp add: changedUpdate_success [OF ok] plainWriter_def)
  have err: "errorView (changedUpdate plainWriter stubJq doc1 ''.['' ?s)
      = ''jq: error: syntax error'' @ [LF]"
    by (simp add: changedUpdate_failure [OF failed] plainWriter_def)
  from failure_keeps_output [OF failed, of plainWriter ?s] before err failed
  show ?thesis by simp
qed

text \<open>
  C1, as the program has it. The program keeps no sequence numbers and discards no
  result: every update that reaches the event loop is applied. After the updates of a
  queue have run, the output view holds what the update applied last wrote, when its
  evaluation succeeded, and what was there before that update, when it failed. So for
  two requests issued in the order R1, R2 whose updates run in the order R2, R1, the
  output after both is R1's whenever R1's evaluation succeeds.
\<close>

theorem last_applied_wins:
  "(Filter jq doc text = Inr out \<longrightarrow>
      outputView (eventLoop ansi jq doc (queue @ [text]) s)
        = snd (ansi (outputWriter (eventLoop ansi jq doc queue s)) out)) \<and>
   (Filter jq doc text = Inl err \<longrightarrow>
      outputView (eventLoop ansi jq doc (queue @ [text]) s)
        = outputView (eventLoop ansi jq doc queue s))"
proof (intro conjI impI)
  assume "Filter jq doc text = Inr out"
  then show "outputView (eventLoop ansi jq doc (queue @ [text]) s)
      = snd (ansi (outputWriter (eventLoop ansi jq doc queue s)) out)"
    by (simp add: eventLoop_snoc changedUpdate_success)
next
  assume "Filter jq doc text = Inl err"
  then show "outputView (eventLoop ansi jq doc (queue @ [text]) s)
      = outputView (eventLoop ansi jq doc queue s)"
    by (cases err) (simp_all add: eventLoop_snoc changedUpdate_failure)
qed

theorem last_applied_wins_witness:
  "Filter stubJq doc1 ''.'' = Inr (''{\"a\":1}'' @ [LF]) \<and>
   outputView (eventLoop plainWriter stubJq doc1 ([''.a''] @ [''.'']) app1)
     = ''{\"a\":1}'' @ [LF]"
proof -
  have ok: "Filter stubJq doc1 ''.'' = Inr (''{\"a\":1}'' @ [LF])"
    by (simp add: Filter_def stubJq_def doc1_def Options0_def ToSlice_def)
  from last_applied_wins
    [of stubJq doc1 "''.''" "''{\"a\":1}'' @ [LF]" plainWriter "[''.a'']" app1] ok
  show ?thesis by (simp add: plainWriter_def)
qed

text \<open>
  The claim C1 as stated fails: the user types \<open>.\<close> (request R1) and then \<open>.a\<close>
  (request R2); the update of R2 reaches the event loop first. After both updates the
  output view shows the result of R1, the whole document, and not the result of R2.
\<close>

theorem later_request_overwritten:
  "Filter stubJq doc1 ''.'' = Inr (''{\"a\":1}'' @ [LF]) \<and>
   Filter stubJq doc1 ''.a'' = Inr (''1'' @ [LF]) \<and>
   outputView (eventLoop plainWriter stubJq doc1 [''.a'', ''.''] app1)
     = ''{\"a\":1}'' @ [LF] \<and>
   outputView (eventLoop plainWriter stubJq doc1 [''.a'', ''.''] app1) \<noteq> ''1'' @ [LF]"
proof -
  have r1: "Filter stubJq doc1 ''.'' = Inr (''{\"a\":1}'' @ [LF])"
    by (simp add: Filter_def stubJq_def doc1_def Options0_def ToSlice_def)
  have r2: "Filter stubJq doc1 ''.a'' = Inr (''1'' @ [LF])"
    by (simp add: Filter_def stubJq_def doc1_def Options0_def ToSlice_def)
  have shown: "outputView (eventLoop plainWriter stubJq doc1 [''.a'', ''.''] app1)
      = ''{\"a\":1}'' @ [LF]"
    by (simp add: changedUpdate_success [OF r1] changedUpdate_success [OF r2]
        plainWriter_def)
  from r1 r2 shown show ?thesis by simp
qed

text \<open>
  C3, as the program has it. When the engine cannot be started, \<open>Filter\<close> returns an
  error that is not an exit error. The startup evaluation of the identity filter ends
  the process with status 1 on it. An evaluation of the interactive loop does not end
  the process: it empties the error view, gives the filter field the error colour,
  shows no diagnostic and changes nothing else.
\<close>

theorem engine_not_started:
  "jq (ToSlice (options doc) @ [text]) (input doc) = CombinedOutput out (Some (NotStarted m))
     \<or> jq (ToSlice (options doc) @ [text]) (input doc) = StdinPipeFails m \<Longrightarrow>
   Filter jq doc text = Inl (Error m) \<and>
   changedStep ansi jq doc text s
     = Running (s\<lparr>errorView := [], fieldTextColor := ColorMaroon\<rparr>) \<and>
   (text = ''.'' \<longrightarrow> startup ansi w0 jq doc filter1 s = Exited 1)"
proof -
  assume "jq (ToSlice (options doc) @ [text]) (input doc) = CombinedOutput out (Some (NotStarted m))
     \<or> jq (ToSlice (options doc) @ [text]) (input doc) = StdinPipeFails m"
  then have failed: "Filter jq doc text = Inl (Error m)"
    by (auto simp: Filter_def)
  from changedUpdate_failure [OF failed, of ansi s]
  have "changedStep ansi jq doc text s
      = Running (s\<lparr>errorView := [], fieldTextColor := ColorMaroon\<rparr>)"
    by (simp add: changedStep_def)
  moreover from failed have "text = ''.'' \<longrightarrow> startup ansi w0 jq doc filter1 s = Exited 1"
    by (auto simp: startup_def)
  ultimately show ?thesis using failed by simp
qed

theorem engine_not_started_witness:
  "Filter noJq doc1 ''.'' = Inl (Error ''executable file not found'') \<and>
   changedStep plainWriter noJq doc1 ''.'' app1
     = Running (app1\<lparr>errorView := [], fieldTextColor := ColorMaroon\<rparr>) \<and>
   startup plainWriter () noJq doc1 ''.a'' app1 = Exited 1"
proof -
  have h: "noJq (ToSlice (options doc1) @ [''.'']) (input doc1)
      = CombinedOutput [] (Some (NotStarted ''executable file not found''))"
    by (simp add: noJq_def)
  from engine_not_started [of noJq doc1 "''.''" "[]" "''executable file not found''"
      plainWriter app1 "()" "''.a''"] h
  show ?thesis by simp
qed

text \<open>
  The claim C3 as stated fails for an evaluation of the interactive loop: with no
  engine to start, the update of a changed filter leaves the process running.
\<close>

theorem interactive_start_failure_not_fatal:
  "Filter noJq doc1 ''.a'' = Inl (Error ''executable file not found'') \<and>
   changedStep plainWriter noJq doc1 ''.a'' app1
     = Running (app1\<lparr>errorView := [], fieldTextColor := ColorMaroon\<rparr>) \<and>
   changedStep plainWriter noJq doc1 ''.a'' app1 \<noteq> Exited 1"
proof -
  have failed: "Filter noJq doc1 ''.a'' = Inl (Error ''executable file not found'')"
    by (simp add: Filter_def noJq_def)
  from changedUpdate_failure [OF failed, of plainWriter app1] failed
  show ?thesis by (simp add: changedStep_def)
qed

section \<open>The history\<close>

lemma contains_set: "contains arr elem = (elem \<in> set arr)"
  by (induction arr) auto

lemma rawLines_line:
  "LF \<notin> set e \<Longrightarrow> rawLines acc (e @ [LF]) = [rev acc @ e]"
  by (induction e arbitrary: acc) auto

lemma rawLines_append:
  "c \<noteq> [] \<Longrightarrow> last c = LF \<Longrightarrow> rawLines acc (c @ d) = rawLines acc c @ rawLines [] d"
proof (induction c arbitrary: acc)
  case Nil
  then show ?case by simp
next
  case (Cons x cs)
  show ?case
  proof (cases "cs = []")
    case True
    with Cons.prems show ?thesis by simp
  next
    case False
    with Cons.prems have "last cs = LF" by simp
    from Cons.IH [OF False this] show ?thesis by simp
  qed
qed

lemma rawLines_appended:
  assumes "c = [] \<or> last c = LF" and "LF \<notin> set e"
  shows "rawLines [] (c @ e @ [LF]) = rawLines [] c @ [e]"
proof (cases "c = []")
  case True
  with rawLines_line [OF assms(2), of "[]"] show ?thesis by simp
next
  case False
  with assms(1) have "last c = LF" by simp
  from rawLines_append [OF False this, of "[]" "e @ [LF]"] rawLines_line [OF assms(2), of "[]"]
  show ?thesis by simp
qed

lemma loadHistory_usable:
  "historyUsable fs hf \<Longrightarrow> loadHistory fs hf = map dropCR (rawLines [] (bytesOf fs hf))"
  by (auto simp: historyUsable_def loadHistory_def readFromFile_def scanLines_def
      wellFormed_def bytesOf_def split: option.splits)

lemma appendToFile_usable:
  "historyUsable fs hf \<Longrightarrow>
     appendToFile fs hf e = (fs\<lparr>content := (content fs)(hf \<mapsto> bytesOf fs hf @ e @ [LF])\<rparr>, None)"
  by (simp add: historyUsable_def appendToFile_def bytesOf_def)

lemma wellFormed_bytesOf: "historyUsable fs hf \<Longrightarrow> wellFormed (bytesOf fs hf)"
  by (auto simp: historyUsable_def bytesOf_def wellFormed_def split: option.splits)

lemma wellFormed_appended:
  "wellFormed c \<Longrightarrow> singleLine e \<Longrightarrow> wellFormed (c @ e @ [LF])"
  by (simp add: wellFormed_def singleLine_def rawLines_appended)

lemma appended_usable:
  assumes "historyUsable fs hf" and "singleLine e"
  shows "historyUsable (fst (appendToFile fs hf e)) hf"
    and "loadHistory (fst (appendToFile fs hf e)) hf = loadHistory fs hf @ [e]"
proof -
  let ?fs = "fst (appendToFile fs hf e)"
  from wellFormed_appended [OF wellFormed_bytesOf [OF assms(1)] assms(2)]
  have wf: "wellFormed (bytesOf fs hf @ e @ [LF])" .
  with assms(1) show usable: "historyUsable ?fs hf"
    by (simp add: appendToFile_usable) (simp add: historyUsable_def)
  have bytes: "bytesOf ?fs hf = bytesOf fs hf @ e @ [LF]"
    using assms(1) by (simp add: appendToFile_usable) (simp add: bytesOf_def)
  from wellFormed_bytesOf [OF assms(1)] assms(2)
  have "rawLines [] (bytesOf ?fs hf) = rawLines [] (bytesOf fs hf) @ [e]"
    unfolding bytes by (simp add: wellFormed_def singleLine_def rawLines_appended)
  moreover from assms(2) have "dropCR e = e"
    by (auto simp: dropCR_def singleLine_def)
  ultimately show "loadHistory ?fs hf = loadHistory fs hf @ [e]"
    by (simp add: loadHistory_usable [OF usable] loadHistory_usable [OF assms(1)])
qed

lemma session_fsys:
  "fsys (session plain doc e s p) =
     (if e \<noteq> [] \<and> e \<notin> set (stored doc p)
      then fst (appendToFile (fsys p) (historyFile (options doc)) e)
      else fsys p)"
  by (simp add: session_def DoneFunc_def stored_def contains_set Let_def)

lemma session_stored:
  assumes "historyUsable (fsys p) (historyFile (options doc))" and "singleLine e"
  shows "historyUsable (fsys (session plain doc e s p)) (historyFile (options doc))"
    and "stored doc (session plain doc e s p) =
      (if e \<noteq> [] \<and> e \<notin> set (stored doc p) then stored doc p @ [e] else stored doc p)"
proof -
  let ?hf = "historyFile (options doc)"
  show "historyUsable (fsys (session plain doc e s p)) ?hf"
    using appended_usable(1) [OF assms] assms(1) by (simp add: session_fsys)
  show "stored doc (session plain doc e s p) =
      (if e \<noteq> [] \<and> e \<notin> set (stored doc p) then stored doc p @ [e] else stored doc p)"
  proof (cases "e \<noteq> [] \<and> e \<notin> set (stored doc p)")
    case True
    then have "fsys (session plain doc e s p) = fst (appendToFile (fsys p) ?hf e)"
      by (simp add: session_fsys)
    with appended_usable(2) [OF assms] True show ?thesis
      by (simp add: stored_def)
  next
    case False
    then have "fsys (session plain doc e s p) = fsys p"
      by (auto simp: session_fsys)
    with False show ?thesis by (auto simp: stored_def)
  qed
qed

lemma count_list_distinct:
  "distinct xs \<Longrightarrow> x \<in> set xs \<Longrightarrow> count_list xs x = 1"
  by (induction xs) auto

text \<open>
  C7, as the program has it. The commit path changes the history file only for a filter
  that is not empty and not among the entries loaded from it. When the history is in
  use and works (a path is configured, no operation on the file fails, the file is
  missing or made of whole lines the scanner accepts) and the filters fit one line of it
  (no newline, no carriage return at the end, shorter than the scanner's limit):
  committing the same filter in two sessions in a row appends it once, so that a history
  without duplicates holds it exactly once; and committing two different filters that
  are not empty and not yet stored appends both, in the order of the commits.
\<close>

theorem commit_appends_once:
  assumes "historyUsable (fsys p) (historyFile (options doc))"
    and "singleLine a" and "singleLine b"
  shows "(fsys (session plain doc a s1 p) \<noteq> fsys p \<longrightarrow> a \<noteq> [] \<and> a \<notin> set (stored doc p)) \<and>
    stored doc (session plain doc a s2 (session plain doc a s1 p)) =
      (if a \<noteq> [] \<and> a \<notin> set (stored doc p) then stored doc p @ [a] else stored doc p) \<and>
    (a \<noteq> [] \<and> distinct (stored doc p) \<longrightarrow>
       count_list (stored doc (session plain doc a s2 (session plain doc a s1 p))) a = 1) \<and>
    (a \<noteq> [] \<and> b \<noteq> [] \<and> a \<noteq> b \<and> a \<notin> set (stored doc p) \<and> b \<notin> set (stored doc p) \<longrightarrow>
       stored doc (session plain doc b s2 (session plain doc a s1 p)) = stored doc p @ [a, b])"
proof -
  let ?p1 = "session plain doc a s1 p"
  note first = session_stored [OF assms(1,2), of plain s1]
  note again = session_stored [OF first(1) assms(2), of plain s2]
  note other = session_stored [OF first(1) assms(3), of plain s2]
  have only_if: "fsys ?p1 \<noteq> fsys p \<longrightarrow> a \<noteq> [] \<and> a \<notin> set (stored doc p)"
    by (simp add: session_fsys)
  have twice: "stored doc (session plain doc a s2 ?p1) =
      (if a \<noteq> [] \<and> a \<notin> set (stored doc p) then stored doc p @ [a] else stored doc p)"
    using first(2) again(2) by auto
  have one: "a \<noteq> [] \<and> distinct (stored doc p) \<longrightarrow>
       count_list (stored doc (session plain doc a s2 ?p1)) a = 1"
    unfolding twice by (auto simp: count_list_distinct)
  have two: "a \<noteq> [] \<and> b \<noteq> [] \<and> a \<noteq> b \<and> a \<notin> set (stored doc p) \<and> b \<notin> set (stored doc p) \<longrightarrow>
       stored doc (session plain doc b s2 ?p1) = stored doc p @ [a, b]"
    using first(2) other(2) by auto
  from only_if twice one two show ?thesis by blast
qed

theorem commit_appends_once_witness:
  "historyUsable (fsys proc0) (historyFile (options doc1)) \<and>
   singleLine ''.a'' \<and> singleLine ''.'' \<and>
   stored doc1 proc0 = [] \<and>
   stored doc1 (session id doc1 ''.a'' app1 (session id doc1 ''.a'' app1 proc0)) = [''.a''] \<and>
   stored doc1 (session id doc1 ''.'' app1 (session id doc1 ''.a'' app1 proc0))
     = [''.a'', ''.'']"
proof -
  have usable: "historyUsable (fsys proc0) (historyFile (options doc1))"
    by (simp add: historyUsable_def proc0_def noFiles_def doc1_def Options0_def)
  have a: "singleLine ''.a''"
    by (simp add: singleLine_def LF_def CR_def maxScanTokenSize_def)
  have b: "singleLine ''.''"
    by (simp add: singleLine_def LF_def CR_def maxScanTokenSize_def)
  have none: "stored doc1 proc0 = []"
    by (simp add: stored_def loadHistory_def readFromFile_def proc0_def noFiles_def)
  from commit_appends_once [OF usable a b, of id app1 app1] none usable a b
  show ?thesis by simp
qed

lemma session_absent:
  "fsys (session plain doc e s p) =
     (if e \<noteq> [] \<and> e \<notin> set (loadHistory (fsys p) (historyFile (options doc)))
      then fst (appendToFile (fsys p) (historyFile (options doc)) e)
      else fsys p)"
  using session_fsys [of plain doc e s p] by (simp add: stored_def)

text \<open>
  The claim C7 as stated fails outside those conditions. A filter that ends in a carriage
  return, committed in two sessions in a row, is stored twice: the scanner drops the
  carriage return when the second session loads the history, so the filter is not
  found in it. After a history file whose last line has no newline, the filter \<open>.a\<close>
  is not stored as an entry: it continues that line. With the history switched off, or
  with a file that cannot be opened, nothing is stored. A filter with a newline in it,
  and a filter too long for the scanner, are appended again by every session.
\<close>

theorem commit_outside_line_format:
  "stored doc1 (session id doc1 (''.a'' @ [CR]) app1
                 (session id doc1 (''.a'' @ [CR]) app1 proc0)) = [''.a'', ''.a''] \<and>
   stored doc1 (session id doc1 ''.c'' app1 (session id doc1 ''.a'' app1 procUnterminated))
     = [''.b.a'', ''.c''] \<and>
   fsys (session id docNoHistory ''.a'' app1 (session id docNoHistory ''.a'' app1 proc0))
     = fsys proc0 \<and>
   fsys (session id doc1 ''.a'' app1 (session id doc1 ''.a'' app1 procDenied))
     = fsys procDenied \<and>
   stored doc1 (session id doc1 (''.a'' @ [LF]) app1
                 (session id doc1 (''.a'' @ [LF]) app1 proc0)) = [''.a'', [], ''.a'', []] \<and>
   bytesOf (fsys (session id doc1 (replicate 70000 (CHR ''a'')) app1
              (session id doc1 (replicate 70000 (CHR ''a'')) app1 proc0))) ''history''
     = replicate 70000 (CHR ''a'') @ [LF] @ replicate 70000 (CHR ''a'') @ [LF]"
proof -
  have hf: "historyFile (options doc1) = ''history''"
    by (simp add: doc1_def Options0_def)
  have off: "historyFile (options docNoHistory) = []"
    by (simp add: docNoHistory_def)
  define e where "e = ''.a'' @ [CR]"
  define p1 where "p1 = session id doc1 e app1 proc0"
  define p2 where "p2 = session id doc1 e app1 p1"
  have p1f: "fsys p1 = \<lparr>content = [''history'' \<mapsto> e @ [LF]], fault = (\<lambda>p. None)\<rparr>"
    unfolding p1_def
    by (simp add: session_absent hf proc0_def noFiles_def loadHistory_def readFromFile_def
        appendToFile_def e_def)
  have h1: "loadHistory (fsys p1) ''history'' = [''.a'']"
    by (simp add: p1f loadHistory_def readFromFile_def scanLines_def dropCR_def
        e_def LF_def CR_def maxScanTokenSize_def)
  have p2f: "fsys p2 = \<lparr>content = [''history'' \<mapsto> e @ [LF] @ e @ [LF]], fault = (\<lambda>p. None)\<rparr>"
    unfolding p2_def
    by (simp add: session_absent hf h1 e_def) (simp add: p1f appendToFile_def e_def)
  have "stored doc1 p2 = [''.a'', ''.a'']"
    by (simp add: stored_def hf p2f loadHistory_def readFromFile_def scanLines_def
        dropCR_def e_def LF_def CR_def maxScanTokenSize_def)
  then have cr: "stored doc1 (session id doc1 (''.a'' @ [CR]) app1
      (session id doc1 (''.a'' @ [CR]) app1 proc0)) = [''.a'', ''.a'']"
    unfolding p2_def p1_def e_def .
  define q1 where "q1 = session id doc1 ''.a'' app1 procUnterminated"
  define q2 where "q2 = session id doc1 ''.c'' app1 q1"
  have u0: "loadHistory (fsys procUnterminated) ''history'' = [''.b'']"
    by (simp add: procUnterminated_def loadHistory_def readFromFile_def scanLines_def
        dropCR_def LF_def CR_def maxScanTokenSize_def)
  have q1f: "fsys q1 = \<lparr>content = [''history'' \<mapsto> ''.b.a'' @ [LF]], fault = (\<lambda>p. None)\<rparr>"
    unfolding q1_def
    by (simp add: session_absent hf u0) (simp add: procUnterminated_def appendToFile_def)
  have u1: "loadHistory (fsys q1) ''history'' = [''.b.a'']"
    by (simp add: q1f loadHistory_def readFromFile_def scanLines_def dropCR_def
        LF_def CR_def maxScanTokenSize_def)
  have q2f: "fsys q2
      = \<lparr>content = [''history'' \<mapsto> ''.b.a'' @ [LF] @ ''.c'' @ [LF]], fault = (\<lambda>p. None)\<rparr>"
    unfolding q2_def
    by (simp add: session_absent hf u1) (simp add: q1f appendToFile_def)
  have "stored doc1 q2 = [''.b.a'', ''.c'']"
    by (simp add: stored_def hf q2f loadHistory_def readFromFile_def scanLines_def dropCR_def
        LF_def CR_def maxScanTokenSize_def)
  then have unterminated:
    "stored doc1 (session id doc1 ''.c'' app1 (session id doc1 ''.a'' app1 procUnterminated))
      = [''.b.a'', ''.c'']"
    unfolding q2_def q1_def .
  have disabled: "fsys (session id docNoHistory ''.a'' app1
      (session id docNoHistory ''.a'' app1 proc0)) = fsys proc0"
    by (simp add: session_absent off appendToFile_def)
  have denied: "fsys (session id doc1 ''.a'' app1 (session id doc1 ''.a'' app1 procDenied))
      = fsys procDenied"
    by (simp add: session_absent hf appendToFile_def procDenied_def)
  define n where "n = ''.a'' @ [LF]"
  define n1 where "n1 = session id doc1 n app1 proc0"
  define n2 where "n2 = session id doc1 n app1 n1"
  have n1f: "fsys n1 = \<lparr>content = [''history'' \<mapsto> n @ [LF]], fault = (\<lambda>p. None)\<rparr>"
    unfolding n1_def
    by (simp add: session_absent hf proc0_def noFiles_def loadHistory_def readFromFile_def
        appendToFile_def n_def)
  have m1: "loadHistory (fsys n1) ''history'' = [''.a'', []]"
    by (simp add: n1f loadHistory_def readFromFile_def scanLines_def dropCR_def
        n_def LF_def CR_def maxScanTokenSize_def)
  have n2f: "fsys n2 = \<lparr>content = [''history'' \<mapsto> n @ [LF] @ n @ [LF]], fault = (\<lambda>p. None)\<rparr>"
    unfolding n2_def
    by (simp add: session_absent hf m1 n_def) (simp add: n1f appendToFile_def n_def)
  have "stored doc1 n2 = [''.a'', [], ''.a'', []]"
    by (simp add: stored_def hf n2f loadHistory_def readFromFile_def scanLines_def
        dropCR_def n_def LF_def CR_def maxScanTokenSize_def)
  then have newline: "stored doc1 (session id doc1 (''.a'' @ [LF]) app1
      (session id doc1 (''.a'' @ [LF]) app1 proc0)) = [''.a'', [], ''.a'', []]"
    unfolding n2_def n1_def n_def .
  define l where "l = replicate 70000 (CHR ''a'')"
  define r1 where "r1 = session id doc1 l app1 proc0"
  define r2 where "r2 = session id doc1 l app1 r1"
  have lne: "l \<noteq> []" unfolding l_def by simp
  have nolf: "LF \<notin> set l" unfolding l_def by (simp add: LF_def)
  have len: "length l = 70000" unfolding l_def by simp
  have r1f: "fsys r1 = \<lparr>content = [''history'' \<mapsto> l @ [LF]], fault = (\<lambda>p. None)\<rparr>"
    unfolding r1_def
    by (simp add: session_absent hf proc0_def noFiles_def loadHistory_def readFromFile_def
        appendToFile_def lne)
  have g1: "loadHistory (fsys r1) ''history'' = []"
    using rawLines_line [OF nolf, of "[]"]
    by (simp add: r1f loadHistory_def readFromFile_def scanLines_def len maxScanTokenSize_def)
  have r2f: "fsys r2 = \<lparr>content = [''history'' \<mapsto> l @ [LF] @ l @ [LF]], fault = (\<lambda>p. None)\<rparr>"
    unfolding r2_def
    by (simp add: session_absent hf g1 lne) (simp add: r1f appendToFile_def)
  have "bytesOf (fsys r2) ''history'' = l @ [LF] @ l @ [LF]"
    by (simp add: r2f bytesOf_def)
  then have long: "bytesOf (fsys (session id doc1 (replicate 70000 (CHR ''a'')) app1
      (session id doc1 (replicate 70000 (CHR ''a'')) app1 proc0))) ''history''
      = replicate 70000 (CHR ''a'') @ [LF] @ replicate 70000 (CHR ''a'') @ [LF]"
    unfolding r2_def r1_def l_def .
  from cr unterminated disabled denied newline long show ?thesis by (intro conjI)
qed

section \<open>Completion\<close>







section \<open>The suggestion fetch\<close>

lemma fetch_document_run:
  "Filter jq \<lparr>input = input doc, options = Options0\<lparr>monochrome := True\<rparr>\<rparr> flt =
     (case jq [flt] (input doc) of
        StdinPipeFails m \<Rightarrow> Inl (Error m)
      | CombinedOutput out None \<Rightarrow> Inr out
      | CombinedOutput out (Some (ExitStatus st)) \<Rightarrow> Inl (ExitError st out)
      | CombinedOutput out (Some (NotStarted m)) \<Rightarrow> Inl (Error m))"
  by (simp add: Filter_def ToSlice_def Options0_def)

lemma Autocomplete_filterMap: "filterMap (fst (Autocomplete s)) = filterMap s"
  by (simp add: Autocomplete_def split: prod.splits)

text \<open>
  C4, as the program has it. The fetch for a prefix runs the engine with no option, on
  the input text of the document, with the filter \<open>[prefix| keys] | unique | first\<close>
  (\<open>[keys] | unique | first\<close> for the empty prefix), which asks the engine for one key
  list. When the engine exits with status 0 and \<open>json.Unmarshal\<close> of its output into a
  slice of strings gives no error, the fetch stores under the prefix the list of prefix,
  separator and key for every key of that slice, in its order. In every other case
  (the engine fails, or \<open>json.Unmarshal\<close> gives an error) the fetch changes nothing.
\<close>

theorem fetch_stores_candidates:
  "(jq [fetchFilter prefix] (input doc) = CombinedOutput out None \<and> unmarshal out = Some keys
      \<longrightarrow> filterMap (fst (fetch jq unmarshal doc prefix s))
            = (filterMap s)(prefix \<mapsto> map (\<lambda>k. prefix @ ''.'' @ k) keys)) \<and>
   ((\<forall>out'. jq [fetchFilter prefix] (input doc) = CombinedOutput out' None
              \<longrightarrow> unmarshal out' = None)
      \<longrightarrow> fetch jq unmarshal doc prefix s = (s, None)) \<and>
   fetchFilter prefix =
     (if prefix = [] then ''[keys] | unique | first''
      else ''['' @ prefix @ ''| keys] | unique | first'')"
proof (intro conjI impI)
  assume "jq [fetchFilter prefix] (input doc) = CombinedOutput out None \<and> unmarshal out = Some keys"
  then show "filterMap (fst (fetch jq unmarshal doc prefix s))
      = (filterMap s)(prefix \<mapsto> map (\<lambda>k. prefix @ ''.'' @ k) keys)"
    by (simp add: fetch_def fetch_document_run Autocomplete_filterMap Let_def)
next
  assume "\<forall>out'. jq [fetchFilter prefix] (input doc) = CombinedOutput out' None
      \<longrightarrow> unmarshal out' = None"
  then show "fetch jq unmarshal doc prefix s = (s, None)"
    by (auto simp: fetch_def fetch_document_run
        split: cmd_result.splits option.splits wait_error.splits)
next
  show "fetchFilter prefix =
     (if prefix = [] then ''[keys] | unique | first''
      else ''['' @ prefix @ ''| keys] | unique | first'')"
    by (simp add: fetchFilter_def)
qed

theorem fetch_stores_candidates_witness:
  "stubJq [fetchFilter []] (input doc1) = CombinedOutput (''[\"a\"]'' @ [LF]) None \<and>
   stubUnmarshal (''[\"a\"]'' @ [LF]) = Some [''a''] \<and>
   filterMap (fst (fetch stubJq stubUnmarshal doc1 [] app1)) = [[] \<mapsto> [''.a'']] \<and>
   fetch noJq stubUnmarshal doc1 [] app1 = (app1, None)"
proof -
  have run: "stubJq [fetchFilter []] (input doc1) = CombinedOutput (''[\"a\"]'' @ [LF]) None"
    by (simp add: stubJq_def fetchFilter_def)
  have parsed: "stubUnmarshal (''[\"a\"]'' @ [LF]) = Some [''a'']"
    by (simp add: stubUnmarshal_def)
  have empty: "filterMap app1 = Map.empty"
    by (simp add: app1_def createApp_def)
  have absent: "\<forall>out'. noJq [fetchFilter []] (input doc1) = CombinedOutput out' None
      \<longrightarrow> stubUnmarshal out' = None"
    by (simp add: noJq_def)
  from fetch_stores_candidates
    [of stubJq "[]" doc1 "''[\"a\"]'' @ [LF]" stubUnmarshal "[''a'']" app1] run parsed empty
  have "filterMap (fst (fetch stubJq stubUnmarshal doc1 [] app1)) = [[] \<mapsto> [''.a'']]"
    by simp
  moreover from fetch_stores_candidates
    [of noJq "[]" doc1 "[]" stubUnmarshal "[]" app1] absent
  have "fetch noJq stubUnmarshal doc1 [] app1 = (app1, None)" by blast
  ultimately show ?thesis using run parsed by simp
qed

text \<open>
  The claim C4 as stated fails twice. The prefix \<open>.a\<close> is not in the cache and selects
  a number: the engine refuses the key query and the fetch stores nothing under \<open>.a\<close>.
  The prefix \<open>.[]\<close> is not in the cache and selects the objects \<open>{"b":1}\<close> and
  \<open>{"a":2}\<close>: the filter keeps the first of their two key lists, so the fetch stores the
  candidate for the key \<open>a\<close> alone and none for the key \<open>b\<close>.
\<close>

theorem fetch_misses_keys:
  "filterMap app1 ''.a'' = None \<and>
   Filter stubJq \<lparr>input = input doc1, options = Options0\<lparr>monochrome := True\<rparr>\<rparr>
       (fetchFilter ''.a'')
     = Inl (ExitError 5 (''jq: error (at <stdin>:1): number (1) has no keys'' @ [LF])) \<and>
   filterMap (fst (fetch stubJq stubUnmarshal doc1 ''.a'' app1)) ''.a'' = None \<and>
   filterMap app1 ''.[]'' = None \<and>
   Filter stubJqList \<lparr>input = input doc2, options = Options0\<lparr>monochrome := True\<rparr>\<rparr>
       (fetchFilter ''.[]'')
     = Inr (''[\"a\"]'' @ [LF]) \<and>
   filterMap (fst (fetch stubJqList stubUnmarshal doc2 ''.[]'' app1)) ''.[]''
     = Some [''.[].a''] \<and>
   ''.[].b'' \<notin> set [''.[].a'']"
proof -
  have empty: "filterMap app1 = Map.empty"
    by (simp add: app1_def createApp_def)
  have failed: "Filter stubJq \<lparr>input = input doc1, options = Options0\<lparr>monochrome := True\<rparr>\<rparr>
       (fetchFilter ''.a'')
     = Inl (ExitError 5 (''jq: error (at <stdin>:1): number (1) has no keys'' @ [LF]))"
    by (simp add: fetch_document_run stubJq_def fetchFilter_def)
  from failed have dropped: "fetch stubJq stubUnmarshal doc1 ''.a'' app1 = (app1, None)"
    by (simp add: fetch_def)
  have run: "Filter stubJqList \<lparr>input = input doc2, options = Options0\<lparr>monochrome := True\<rparr>\<rparr>
       (fetchFilter ''.[]'')
     = Inr (''[\"a\"]'' @ [LF])"
    by (simp add: fetch_document_run stubJqList_def fetchFilter_def)
  have one: "filterMap (fst (fetch stubJqList stubUnmarshal doc2 ''.[]'' app1)) ''.[]''
     = Some [''.[].a'']"
    by (simp add: fetch_def run stubUnmarshal_def Autocomplete_filterMap)
  from dropped empty
  have kept: "filterMap (fst (fetch stubJq stubUnmarshal doc1 ''.a'' app1)) ''.a'' = None"
    by simp
  from empty have e1: "filterMap app1 ''.a'' = None" and e2: "filterMap app1 ''.[]'' = None"
    by simp_all
  have missing: "''.[].b'' \<notin> set [''.[].a'']" by simp
  from e1 failed kept e2 run one missing show ?thesis by (intro conjI)
qed



section \<open>The suggestion cache\<close>






end
